theory Spec2Isabelle
  imports Main "HOL-Library.Word"
begin

unbundle bit_operations_syntax

section \<open>Common data\<close>

text \<open>
  Python \<open>bytes\<close> are sequences of integers in \<open>0..255\<close>: lists of 8-bit words.
  Python \<open>str\<close> is a sequence of Unicode code points: a list of naturals; \<open>str\<close>
  turns an ASCII literal into that representation.
\<close>

type_synonym byte = "8 word"

type_synonym pystr = "nat list"

definition str :: "string \<Rightarrow> pystr" where
  "str s = map of_char s"

text \<open>
  Everything that ends a Python computation early.  All constructors but \<open>MemoryFault\<close>
  are Python exceptions; \<open>MemoryFault\<close> stands for an access through wasmtime's raw
  \<open>data_ptr\<close> outside the linear memory, which no Python handler sees.
\<close>

datatype error =
    AssertionError
  | IndexError
  | KeyError int
  | Trap
  | UnicodeDecodeError
  | JSONDecodeError
  | TypeError
  | MemoryFault

text \<open>Python subscripting \<open>xs[i]\<close> and slicing \<open>xs[a:b]\<close> on sequences, negative indices included.\<close>

definition getitem :: "'a list \<Rightarrow> int \<Rightarrow> error + 'a" where
  "getitem xs i =
     (if i < - int (length xs) \<or> int (length xs) \<le> i then Inl IndexError
      else if i < 0 then Inr (xs ! nat (i + int (length xs)))
      else Inr (xs ! nat i))"

definition slice_index :: "nat \<Rightarrow> int \<Rightarrow> nat" where
  "slice_index n i = (if i < 0 then nat (max (int n + i) 0) else min (nat i) n)"

definition getslice :: "'a list \<Rightarrow> int \<Rightarrow> int \<Rightarrow> 'a list" where
  "getslice xs a b =
     (let lo = slice_index (length xs) a; hi = slice_index (length xs) b
      in take (hi - lo) (drop lo xs))"

section \<open>leb128.py\<close>

definition MAX_LENGTH :: nat where
  "MAX_LENGTH = 10"

text \<open>
  The loop of \<open>u.decode\<close>: \<open>k\<close> is the index \<open>enumerate\<close> hands out next, the pair is
  \<open>(r, i)\<close> with \<open>i = None\<close> as long as the loop body has not run.
\<close>

fun u_decode_loop :: "nat \<Rightarrow> byte list \<Rightarrow> nat \<times> nat option \<Rightarrow> nat \<times> nat option" where
  "u_decode_loop k [] (r, i) = (r, i)"
| "u_decode_loop k (e # es) (r, i) =
     (let r' = r + push_bit (k * 7) (unat (e AND 0x7F))
      in if e AND 0x80 = 0x00 then (r', Some k)
         else u_decode_loop (Suc k) es (r', Some k))"

definition u_decode :: "byte list \<Rightarrow> error + (nat \<times> nat)" where
  "u_decode b =
     (case u_decode_loop 0 b (0, None) of
        (r, None) \<Rightarrow> Inl AssertionError
      | (r, Some i) \<Rightarrow> Inr (r, i + 1))"

section \<open>wasm_parser.py\<close>

definition CODE_SECTION_ID :: byte where
  "CODE_SECTION_ID = 10"

text \<open>
  The \<open>while\<close> loop of \<open>get_code_section_impl\<close>, with the cursor \<open>pos\<close> as argument.
  Leaving the loop reaches \<open>assert False\<close>.
\<close>

function get_code_section_while :: "byte list \<Rightarrow> nat \<Rightarrow> error + (nat \<times> nat)" where
  "get_code_section_while wasm pos =
     (if pos < length wasm then
        (let section_id = wasm ! pos; pos1 = pos + 1
         in case u_decode (take MAX_LENGTH (drop pos1 wasm)) of
              Inl e \<Rightarrow> Inl e
            | Inr (len, leb128_length) \<Rightarrow>
                (let pos2 = pos1 + leb128_length
                 in if section_id = CODE_SECTION_ID then
                      (case u_decode (take MAX_LENGTH (drop pos2 wasm)) of
                         Inl e \<Rightarrow> Inl e
                       | Inr (function_count, leb128_length') \<Rightarrow>
                           Inr (pos2 + leb128_length', function_count))
                    else get_code_section_while wasm (pos2 + len)))
      else Inl AssertionError)"
  by pat_completeness auto
termination
  by (relation "measure (\<lambda>(wasm, pos). length wasm - pos)") auto

declare get_code_section_while.simps [simp del]

definition get_code_section_impl :: "byte list \<Rightarrow> error + (nat \<times> nat)" where
  "get_code_section_impl wasm = get_code_section_while wasm 8"

definition get_code_section :: "byte list \<Rightarrow> error + nat" where
  "get_code_section wasm =
     (case get_code_section_impl wasm of Inl e \<Rightarrow> Inl e | Inr r \<Rightarrow> Inr (fst r))"

text \<open>\<open>int.from_bytes(b, "big")\<close> and \<open>int.from_bytes(b, "little")\<close>.\<close>

definition from_bytes_big :: "byte list \<Rightarrow> nat" where
  "from_bytes_big b = foldl (\<lambda>acc e. acc * 256 + unat e) 0 b"

definition from_bytes_little :: "byte list \<Rightarrow> nat" where
  "from_bytes_little b = foldr (\<lambda>e acc. unat e + 256 * acc) b 0"

text \<open>Python's \<open>hex\<close> on a non-negative integer.\<close>

definition hex_digit :: "nat \<Rightarrow> nat" where
  "hex_digit d = (if d < 10 then 48 + d else 87 + d)"

fun hex_digits :: "nat \<Rightarrow> pystr" where
  "hex_digits n = (if n < 16 then [hex_digit n] else hex_digits (n div 16) @ [hex_digit (n mod 16)])"

definition hex :: "nat \<Rightarrow> pystr" where
  "hex n = str ''0x'' @ hex_digits n"

text \<open>The \<open>match\<close> statement of \<open>wasm_opcode_to_str\<close>, one pair per \<open>case\<close>, in source order.\<close>

definition opcode_cases :: "(nat \<times> string) list" where
  "opcode_cases = [
    (0x00, ''unreachable''), (0x01, ''nop''), (0x02, ''block''), (0x03, ''loop''),
    (0x04, ''if''), (0x05, ''else''), (0x0B, ''end''), (0x0C, ''br''), (0x0D, ''br_if''),
    (0x0E, ''br_table''), (0x0F, ''return''), (0x10, ''call''), (0x11, ''call_indirect''),
    (0x1A, ''drop''), (0x1B, ''select''), (0x20, ''local.get''), (0x21, ''local.set''),
    (0x22, ''local.tee''), (0x23, ''global.get''), (0x24, ''global.set''), (0x25, ''table.get''),
    (0x26, ''table.set''), (0x28, ''i32.load''), (0x29, ''i64.load''), (0x2A, ''f32.load''),
    (0x2B, ''f64.load''), (0x2C, ''i32.load8_s''), (0x2D, ''i32.load8_u''),
    (0x2E, ''i32.load16_s''), (0x2F, ''i32.load16_u''), (0x30, ''i64.load8_s''),
    (0x31, ''i64.load8_u''), (0x32, ''i64.load16_s''), (0x33, ''i64.load16_u''),
    (0x34, ''i64.load32_s''), (0x35, ''i64.load32_u''), (0x36, ''i32.store''),
    (0x37, ''i64.store''), (0x38, ''f32.store''), (0x39, ''f64.store''), (0x3A, ''i32.store8''),
    (0x3B, ''i32.store16''), (0x3C, ''i64.store8''), (0x3D, ''i64.store16''),
    (0x3E, ''i64.store32''), (0x3F, ''memory.size''), (0x40, ''memory.grow''),
    (0x41, ''i32.const''), (0x42, ''i64.const''), (0x43, ''f32.const''), (0x44, ''f64.const''),
    (0x45, ''i32.eqz''), (0x46, ''i32.eq''), (0x47, ''i32.ne''), (0x48, ''i32.lt_s''),
    (0x49, ''i32.lt_u''), (0x4A, ''i32.gt_s''), (0x4B, ''i32.gt_u''), (0x4C, ''i32.le_s''),
    (0x4D, ''i32.le_u''), (0x4E, ''i32.ge_s''), (0x4F, ''i32.ge_u''), (0x50, ''i64.eqz''),
    (0x51, ''i64.eq''), (0x52, ''i64.ne''), (0x53, ''i64.lt_s''), (0x54, ''i64.lt_u''),
    (0x55, ''i64.gt_s''), (0x56, ''i64.gt_u''), (0x57, ''i64.le_s''), (0x58, ''i64.le_u''),
    (0x59, ''i64.ge_s''), (0x5A, ''i64.ge_u''), (0x5B, ''f32.eq''), (0x5C, ''f32.ne''),
    (0x5D, ''f32.lt''), (0x5E, ''f32.gt''), (0x5F, ''f32.le''), (0x60, ''f32.ge''),
    (0x61, ''f64.eq''), (0x62, ''f64.ne''), (0x63, ''f64.lt''), (0x64, ''f64.gt''),
    (0x65, ''f64.le''), (0x66, ''f64.ge''), (0x67, ''i32.clz''), (0x68, ''i32.ctz''),
    (0x69, ''i32.popcnt''), (0x6A, ''i32.add''), (0x6B, ''i32.sub''), (0x6C, ''i32.mul''),
    (0x6D, ''i32.div_s''), (0x6E, ''i32.div_u''), (0x6F, ''i32.rem_s''), (0x70, ''i32.rem_u''),
    (0x71, ''i32.and''), (0x72, ''i32.or''), (0x73, ''i32.xor''), (0x74, ''i32.shl''),
    (0x75, ''i32.shr_s''), (0x76, ''i32.shr_u''), (0x77, ''i32.rotl''), (0x78, ''i32.rotr''),
    (0x79, ''i64.clz''), (0x7A, ''i64.ctz''), (0x7B, ''i64.popcnt''), (0x7C, ''i64.add''),
    (0x7D, ''i64.sub''), (0x7E, ''i64.mul''), (0x7F, ''i64.div_s''), (0x80, ''i64.div_u''),
    (0x81, ''i64.rem_s''), (0x82, ''i64.rem_u''), (0x83, ''i64.and''), (0x84, ''i64.or''),
    (0x85, ''i64.xor''), (0x86, ''i64.shl''), (0x87, ''i64.shr_s''), (0x88, ''i64.shr_u''),
    (0x89, ''i64.rotl''), (0x8A, ''i64.rotr''), (0x8B, ''f32.abs''), (0x8C, ''f32.neg''),
    (0x8D, ''f32.ceil''), (0x8E, ''f32.floor''), (0x8F, ''f32.trunc''), (0x90, ''f32.nearest''),
    (0x91, ''f32.sqrt''), (0x92, ''f32.add''), (0x93, ''f32.sub''), (0x94, ''f32.mul''),
    (0x95, ''f32.div''), (0x96, ''f32.min''), (0x97, ''f32.max''), (0x98, ''f32.copysign''),
    (0x99, ''f64.abs''), (0x9A, ''f64.neg''), (0x9B, ''f64.ceil''), (0x9C, ''f64.floor''),
    (0x9D, ''f64.trunc''), (0x9E, ''f64.nearest''), (0x9F, ''f64.sqrt''), (0xA0, ''f64.add''),
    (0xA1, ''f64.sub''), (0xA2, ''f64.mul''), (0xA3, ''f64.div''), (0xA4, ''f64.min''),
    (0xA5, ''f64.max''), (0xA6, ''f64.copysign''), (0xA7, ''i32.wrap_i64''),
    (0xA8, ''i32.trunc_f32_s''), (0xA9, ''i32.trunc_f32_u''), (0xAA, ''i32.trunc_f64_s''),
    (0xAB, ''i32.trunc_f64_u''), (0xAC, ''i64.extend'i32_s''), (0xAD, ''i64.extend'i32_u''),
    (0xAE, ''i64.trunc_f32_s''), (0xAF, ''i64.trunc_f32_u''), (0xB0, ''i64.trunc_f64_s''),
    (0xB1, ''i64.trunc_f64_u''), (0xB2, ''f32.convert_i32_s''), (0xB3, ''f32.convert_i32_u''),
    (0xB4, ''f32.convert_i64_s''), (0xB5, ''f32.convert_i64_u''), (0xB6, ''f32.demote_f64''),
    (0xB7, ''f64.convert_i32_s''), (0xB8, ''f64.convert_i32_u''), (0xB9, ''f64.convert_i64_s''),
    (0xBA, ''f64.convert_i64_u''), (0xBB, ''f64.promote_f32''), (0xBC, ''i32.reinterpret_f32''),
    (0xBD, ''i64.reinterpret_f64''), (0xBE, ''f32.reinterpret_i32''),
    (0xBF, ''f64.reinterpret_i64''), (0xC0, ''i32.extend8_s''), (0xC1, ''i32.extend16_s''),
    (0xC2, ''i64.extend8_s''), (0xC3, ''i64.extend16_s''), (0xC4, ''i64.extend32_s''),
    (0xD0, ''ref.null''), (0xD1, ''ref.is_null''), (0xD2, ''ref.func''),
    (0xFC08, ''memory.init''), (0xFC09, ''data.drop''), (0xFC0A, ''memory.copy''),
    (0xFC0B, ''memory.fill''), (0xFC0C, ''table.init''), (0xFC0D, ''element.drop''),
    (0xFC0E, ''table.copy''), (0xFC0F, ''table.grow''), (0xFC10, ''table.size''),
    (0xFC11, ''table.fill'')]"

definition wasm_opcode_to_str :: "nat \<Rightarrow> pystr" where
  "wasm_opcode_to_str op =
     (case map_of opcode_cases op of
        Some name \<Rightarrow> str name
      | None \<Rightarrow> str ''unknown_opcode_'' @ hex op)"

definition get_wasm_op_code_str :: "byte list \<Rightarrow> int \<Rightarrow> error + pystr" where
  "get_wasm_op_code_str wasm offset =
     (case getitem wasm offset of
        Inl e \<Rightarrow> Inl e
      | Inr b \<Rightarrow>
          Inr (wasm_opcode_to_str
                (if b \<noteq> 0xFC then unat b
                 else from_bytes_big (getslice wasm offset (offset + 2)))))"

text \<open>
  The layout of the WebAssembly binary format, used to state what a valid module is:
  an unsigned LEB128 encoding of \<open>n\<close> (padding allowed), and a section made of its id,
  the encoding of its payload size, and the payload.
\<close>

fun is_varuint :: "byte list \<Rightarrow> nat \<Rightarrow> bool" where
  "is_varuint [] n = False"
| "is_varuint (b # bs) n =
     (if b AND 0x80 = 0 then bs = [] \<and> unat b = n
      else unat (b AND 0x7F) = n mod 128 \<and> is_varuint bs (n div 128))"

record wasm_section =
  sec_id :: byte
  sec_size :: "byte list"
  sec_payload :: "byte list"

definition section_bytes :: "wasm_section \<Rightarrow> byte list" where
  "section_bytes s = sec_id s # sec_size s @ sec_payload s"

definition valid_section :: "wasm_section \<Rightarrow> bool" where
  "valid_section s \<longleftrightarrow>
     is_varuint (sec_size s) (length (sec_payload s)) \<and> length (sec_size s) \<le> 5"

section \<open>lib_dwarf.py\<close>

text \<open>
  The decoder \<open>wasm_dwarf_lib.wasm\<close> is a third-party module loaded at import time; its
  five exports are a parameter of the model.  An export gets its arguments, the linear
  memory and the decoder's own state, and answers with a value (\<open>None\<close>: the call
  trapped, which wasmtime raises as an exception), the memory and the state afterwards.
\<close>

datatype export_name =
    cabi_realloc
  | dwo_create
  | dwo_get_line_map
  | dwo_destroy
  | cabi_post_dwo_get_line_map

type_synonym 'g export = "int list \<Rightarrow> byte list \<Rightarrow> 'g \<Rightarrow> int option \<times> byte list \<times> 'g"

text \<open>
  The module-level \<open>store\<close> and \<open>instance\<close>, shared by all calls: the linear memory, the
  decoder's state, and (for stating what was called) the export calls made so far.
\<close>

record 'g world =
  memory :: "byte list"
  guest :: 'g
  calls :: "(export_name \<times> int list) list"

type_synonym ('a, 'g) prog = "'g world \<Rightarrow> (error + 'a) \<times> 'g world"

definition return :: "'a \<Rightarrow> ('a, 'g) prog" where
  "return a w = (Inr a, w)"

definition raise :: "error \<Rightarrow> ('a, 'g) prog" where
  "raise e w = (Inl e, w)"

definition bind :: "('a, 'g) prog \<Rightarrow> ('a \<Rightarrow> ('b, 'g) prog) \<Rightarrow> ('b, 'g) prog" where
  "bind m f w = (case m w of (Inl e, w') \<Rightarrow> (Inl e, w') | (Inr a, w') \<Rightarrow> f a w')"

definition call_func :: "(export_name \<Rightarrow> 'g export) \<Rightarrow> export_name \<Rightarrow> int list \<Rightarrow> (int, 'g) prog" where
  "call_func exports func_name args w =
     (case exports func_name args (memory w) (guest w) of
        (result, m, g) \<Rightarrow>
          (case result of None \<Rightarrow> Inl Trap | Some v \<Rightarrow> Inr v,
           \<lparr>memory = m, guest = g, calls = calls w @ [(func_name, args)]\<rparr>))"

text \<open>
  \<open>linear_memory.data_ptr(store)\<close> is a raw pointer: indexing it is not bounds-checked
  and raises nothing.  The model follows accesses inside the memory and ends with
  \<open>MemoryFault\<close> at the first one outside.
\<close>

fun read_loop :: "byte list \<Rightarrow> int \<Rightarrow> nat list \<Rightarrow> error + byte list" where
  "read_loop mem ptr [] = Inr []"
| "read_loop mem ptr (i # is) =
     (if 0 \<le> ptr + int i \<and> ptr + int i < int (length mem) then
        (case read_loop mem ptr is of
           Inl e \<Rightarrow> Inl e
         | Inr l \<Rightarrow> Inr (mem ! nat (ptr + int i) # l))
      else Inl MemoryFault)"

definition read_from_linear_memory :: "int \<Rightarrow> int \<Rightarrow> (byte list, 'g) prog" where
  "read_from_linear_memory ptr size' w = (read_loop (memory w) ptr [0..<nat size'], w)"

fun write_loop :: "byte list \<Rightarrow> int \<Rightarrow> nat \<Rightarrow> byte list \<Rightarrow> error + byte list" where
  "write_loop mem ptr i [] = Inr mem"
| "write_loop mem ptr i (d # data) =
     (if 0 \<le> ptr + int i \<and> ptr + int i < int (length mem)
      then write_loop (mem[nat (ptr + int i) := d]) ptr (Suc i) data
      else Inl MemoryFault)"

definition write_to_linear_memory :: "int \<Rightarrow> byte list \<Rightarrow> (unit, 'g) prog" where
  "write_to_linear_memory ptr data w =
     (case write_loop (memory w) ptr 0 data of
        Inl e \<Rightarrow> (Inl e, w)
      | Inr m \<Rightarrow> (Inr (), w\<lparr>memory := m\<rparr>))"

record DWO =
  self_bin :: "byte list"
  self_dwo :: "int option"

definition DWO_init :: "byte list \<Rightarrow> DWO" where
  "DWO_init bin = \<lparr>self_bin = bin, self_dwo = None\<rparr>"

definition DWO_enter :: "(export_name \<Rightarrow> 'g export) \<Rightarrow> DWO \<Rightarrow> (int \<times> DWO, 'g) prog" where
  "DWO_enter exports self =
     bind (call_func exports cabi_realloc [0, 0, 4, int (length (self_bin self))]) (\<lambda>dwarf_ptr.
     bind (write_to_linear_memory dwarf_ptr (self_bin self)) (\<lambda>_.
     bind (call_func exports dwo_create [dwarf_ptr, int (length (self_bin self))]) (\<lambda>handle.
     return (handle, self\<lparr>self_dwo := Some handle\<rparr>))))"

definition DWO_exit :: "(export_name \<Rightarrow> 'g export) \<Rightarrow> DWO \<Rightarrow> (int, 'g) prog" where
  "DWO_exit exports self =
     (case self_dwo self of
        None \<Rightarrow> raise TypeError
      | Some handle \<Rightarrow> call_func exports dwo_destroy [handle])"

text \<open>
  \<open>with DWO(binary) as dwo: body\<close>.  When \<open>__enter__\<close> raises, neither the body nor
  \<open>__exit__\<close> runs.  Otherwise \<open>__exit__\<close> runs after the body, whether the body returned
  or raised; as \<open>__exit__\<close> returns \<open>None\<close>, the body's exception is raised again after
  it, unless \<open>__exit__\<close> raised one itself.  A \<open>MemoryFault\<close> is no exception and runs no
  handler.
\<close>

definition with_DWO ::
  "(export_name \<Rightarrow> 'g export) \<Rightarrow> byte list \<Rightarrow> (int \<Rightarrow> ('a, 'g) prog) \<Rightarrow> ('a, 'g) prog" where
  "with_DWO exports binary body w =
     (case DWO_enter exports (DWO_init binary) w of
        (Inl e, w1) \<Rightarrow> (Inl e, w1)
      | (Inr (handle, self), w1) \<Rightarrow>
          (case body handle w1 of
             (r, w2) \<Rightarrow>
               if r = Inl MemoryFault then (r, w2)
               else (case DWO_exit exports self w2 of
                       (Inl e, w3) \<Rightarrow> (Inl e, w3)
                     | (Inr _, w3) \<Rightarrow> (r, w3))))"

text \<open>\<open>bytes.decode("utf-8")\<close>: strict decoding into code points.\<close>

definition continuation :: "byte \<Rightarrow> bool" where
  "continuation b \<longleftrightarrow> 0x80 \<le> b \<and> b \<le> 0xBF"

definition low6 :: "byte \<Rightarrow> nat" where
  "low6 b = unat (b AND 0x3F)"

fun utf8_decode :: "byte list \<Rightarrow> error + pystr" where
  "utf8_decode [] = Inr []"
| "utf8_decode (b0 # bs) =
     (if b0 < 0x80 then
        (case utf8_decode bs of Inl e \<Rightarrow> Inl e | Inr s \<Rightarrow> Inr (unat b0 # s))
      else if 0xC2 \<le> b0 \<and> b0 \<le> 0xDF then
        (case bs of
           b1 # bs' \<Rightarrow>
             if continuation b1 then
               (case utf8_decode bs' of
                  Inl e \<Rightarrow> Inl e
                | Inr s \<Rightarrow> Inr ((unat (b0 AND 0x1F) * 64 + low6 b1) # s))
             else Inl UnicodeDecodeError
         | _ \<Rightarrow> Inl UnicodeDecodeError)
      else if 0xE0 \<le> b0 \<and> b0 \<le> 0xEF then
        (case bs of
           b1 # b2 # bs' \<Rightarrow>
             if (if b0 = 0xE0 then 0xA0 else 0x80) \<le> b1 \<and> b1 \<le> (if b0 = 0xED then 0x9F else 0xBF)
                \<and> continuation b2 then
               (case utf8_decode bs' of
                  Inl e \<Rightarrow> Inl e
                | Inr s \<Rightarrow> Inr (((unat (b0 AND 0x0F) * 64 + low6 b1) * 64 + low6 b2) # s))
             else Inl UnicodeDecodeError
         | _ \<Rightarrow> Inl UnicodeDecodeError)
      else if 0xF0 \<le> b0 \<and> b0 \<le> 0xF4 then
        (case bs of
           b1 # b2 # b3 # bs' \<Rightarrow>
             if (if b0 = 0xF0 then 0x90 else 0x80) \<le> b1 \<and> b1 \<le> (if b0 = 0xF4 then 0x8F else 0xBF)
                \<and> continuation b2 \<and> continuation b3 then
               (case utf8_decode bs' of
                  Inl e \<Rightarrow> Inl e
                | Inr s \<Rightarrow>
                    Inr ((((unat (b0 AND 0x07) * 64 + low6 b1) * 64 + low6 b2) * 64 + low6 b3) # s))
             else Inl UnicodeDecodeError
         | _ \<Rightarrow> Inl UnicodeDecodeError)
      else Inl UnicodeDecodeError)"

text \<open>The body of the \<open>with\<close> statement in \<open>get_wasm_wat_mapping\<close>, and the function.\<close>

definition get_wasm_wat_mapping_body :: "(export_name \<Rightarrow> 'g export) \<Rightarrow> int \<Rightarrow> (pystr, 'g) prog" where
  "get_wasm_wat_mapping_body exports dwo =
     bind (call_func exports dwo_get_line_map [dwo]) (\<lambda>json_struct_ptr.
     bind (read_from_linear_memory json_struct_ptr 4) (\<lambda>b.
     let json_ptr = int (from_bytes_little b) in
     bind (read_from_linear_memory (json_struct_ptr + 4) 4) (\<lambda>b'.
     let json_length = int (from_bytes_little b') in
     bind (read_from_linear_memory json_ptr json_length) (\<lambda>raw.
     case utf8_decode raw of
       Inl e \<Rightarrow> raise e
     | Inr debug_line \<Rightarrow>
         bind (call_func exports cabi_post_dwo_get_line_map [json_struct_ptr]) (\<lambda>_.
         return debug_line)))))"

definition get_wasm_wat_mapping :: "(export_name \<Rightarrow> 'g export) \<Rightarrow> byte list \<Rightarrow> (pystr, 'g) prog" where
  "get_wasm_wat_mapping exports binary =
     with_DWO exports binary (get_wasm_wat_mapping_body exports)"

text \<open>A program that only appends export calls other than \<open>dwo-destroy\<close> to the record.\<close>

definition no_destroy :: "('a, 'g) prog \<Rightarrow> bool" where
  "no_destroy m \<longleftrightarrow>
     (\<forall>w r w'. m w = (r, w') \<longrightarrow>
        (\<exists>cs. calls w' = calls w @ cs \<and> (\<forall>c\<in>set cs. fst c \<noteq> dwo_destroy)))"

section \<open>wat_parser.py\<close>

text \<open>
  The loop of \<open>offset_to_position\<close> over the lines that are left, with the running
  \<open>line_number\<close> and \<open>cursor\<close>; \<open>None\<close> when the loop ends without returning.
\<close>

fun offset_to_position_loop :: "'a list list \<Rightarrow> int \<Rightarrow> int \<Rightarrow> int \<Rightarrow> (int \<times> int) option" where
  "offset_to_position_loop [] line_number cursor offset = None"
| "offset_to_position_loop (line # lines) line_number cursor offset =
     (let old_cursor = cursor; cursor' = cursor + (int (length line) + 1)
      in if offset \<ge> old_cursor \<and> offset < cursor' then Some (line_number, offset - old_cursor)
         else offset_to_position_loop lines (line_number + 1) cursor' offset)"

definition offset_to_position :: "'a list list \<Rightarrow> int \<Rightarrow> int \<times> int" where
  "offset_to_position lines offset =
     (case offset_to_position_loop lines 0 0 offset of
        Some position \<Rightarrow> position
      | None \<Rightarrow> (int (length lines), 0))"

text \<open>
  \<open>wat.split("\n")\<close>, by which \<open>analyze_wat\<close> in explorer_server.py makes the lines it
  passes to \<open>offset_to_position\<close>.
\<close>

fun split_newline :: "pystr \<Rightarrow> pystr list" where
  "split_newline [] = [[]]"
| "split_newline (c # cs) =
     (if c = 10 then [] # split_newline cs
      else (c # hd (split_newline cs)) # tl (split_newline cs))"

text \<open>
  The inverse direction named by the round-trip property: the offset of \<open>(line, column)\<close>
  is the sum, over all lines before \<open>line\<close>, of the line's length plus one for its
  terminator, plus \<open>column\<close>.
\<close>

definition position_to_offset :: "'a list list \<Rightarrow> int \<times> int \<Rightarrow> int" where
  "position_to_offset lines position =
     (\<Sum>l\<leftarrow>take (nat (fst position)) lines. int (length l) + 1) + snd position"

text \<open>The number of characters a list of lines takes up, one terminator per line.\<close>

definition lines_extent :: "'a list list \<Rightarrow> int" where
  "lines_extent lines = (\<Sum>l\<leftarrow>lines. int (length l) + 1)"

datatype Range = Range (start: int) (end': int)

text \<open>
  The loop of \<open>split_sub_expr\<close> over the indices that are left, with \<open>subs\<close>,
  \<open>current_start\<close> and \<open>depth\<close>.
\<close>

fun split_sub_expr_loop ::
  "pystr \<Rightarrow> int list \<Rightarrow> Range list \<Rightarrow> int option \<Rightarrow> int \<Rightarrow> error + Range list" where
  "split_sub_expr_loop wat [] subs current_start depth = Inr subs"
| "split_sub_expr_loop wat (i # is) subs current_start depth =
     (case getitem wat i of
        Inl e \<Rightarrow> Inl e
      | Inr c \<Rightarrow>
          if c = of_char CHR ''('' then
            (let depth' = depth + 1
             in split_sub_expr_loop wat is subs (if depth' = 1 then Some i else current_start) depth')
          else if c = of_char CHR '')'' then
            (let depth' = depth - 1
             in if depth' = 0 then
                  (case current_start of
                     None \<Rightarrow> Inl AssertionError
                   | Some s \<Rightarrow> split_sub_expr_loop wat is (subs @ [Range s i]) None depth')
                else split_sub_expr_loop wat is subs current_start depth')
          else split_sub_expr_loop wat is subs current_start depth)"

definition split_sub_expr :: "pystr \<Rightarrow> Range \<Rightarrow> error + Range list" where
  "split_sub_expr wat r = split_sub_expr_loop wat [start r..end' r] [] None (- 1)"

text \<open>\<open>str.strip()\<close> removes the characters for which \<open>str.isspace\<close> holds; \<open>str.startswith\<close>.\<close>

definition isspace :: "nat \<Rightarrow> bool" where
  "isspace c \<longleftrightarrow>
     (9 \<le> c \<and> c \<le> 13) \<or> (28 \<le> c \<and> c \<le> 32) \<or> c = 133 \<or> c = 160 \<or> c = 5760 \<or>
     (8192 \<le> c \<and> c \<le> 8202) \<or> c = 8232 \<or> c = 8233 \<or> c = 8239 \<or> c = 8287 \<or> c = 12288"

definition strip :: "pystr \<Rightarrow> pystr" where
  "strip s = rev (dropWhile isspace (rev (dropWhile isspace s)))"

definition startswith :: "pystr \<Rightarrow> pystr \<Rightarrow> bool" where
  "startswith s p \<longleftrightarrow> take (length p) s = p"

definition get_sub_expr :: "pystr \<Rightarrow> Range \<Rightarrow> pystr" where
  "get_sub_expr wat r = strip (getslice wat (start r + 1) (end' r))"

definition extract_func_impl :: "pystr \<Rightarrow> Range \<Rightarrow> error + Range list" where
  "extract_func_impl wat extract_range =
     (if length wat = 0 then Inl AssertionError
      else case split_sub_expr wat extract_range of
             Inl e \<Rightarrow> Inl e
           | Inr sub_ranges \<Rightarrow>
               Inr (filter (\<lambda>sub_range. startswith (get_sub_expr wat sub_range) (str ''func''))
                      sub_ranges))"

definition extract_func :: "pystr \<Rightarrow> error + Range list" where
  "extract_func wat = extract_func_impl wat (Range 0 (int (length wat) - 1))"

definition has_memory :: "pystr \<Rightarrow> error + bool" where
  "has_memory wat =
     (case split_sub_expr wat (Range 0 (int (length wat) - 1)) of
        Inl e \<Rightarrow> Inl e
      | Inr sub_ranges \<Rightarrow>
          Inr (\<exists>sub_range \<in> set sub_ranges. startswith (get_sub_expr wat sub_range) (str ''memory'')))"

text \<open>
  What it means for a text to have balanced parentheses: scanning from the left, the
  nesting depth never drops below zero and ends at zero.
\<close>

fun balanced_from :: "pystr \<Rightarrow> int \<Rightarrow> bool" where
  "balanced_from [] d \<longleftrightarrow> d = 0"
| "balanced_from (c # cs) d \<longleftrightarrow>
     (if c = of_char CHR ''('' then balanced_from cs (d + 1)
      else if c = of_char CHR '')'' then 0 < d \<and> balanced_from cs (d - 1)
      else balanced_from cs d)"

definition balanced :: "pystr \<Rightarrow> bool" where
  "balanced wat \<longleftrightarrow> balanced_from wat 0"

section \<open>dwarf.py\<close>

text \<open>
  A \<open>defaultdict(list)\<close> turned into a \<open>dict\<close>, as an association list in insertion
  order with one pair per key; \<open>append_item k v d\<close> is \<open>d[k].append(v)\<close>.
\<close>

fun append_item :: "int \<Rightarrow> int \<Rightarrow> (int \<times> int list) list \<Rightarrow> (int \<times> int list) list" where
  "append_item k v [] = [(k, [v])]"
| "append_item k v ((k', vs) # d) =
     (if k' = k then (k', vs @ [v]) # d else (k', vs) # append_item k v d)"

text \<open>
  One object of the line-map JSON.  \<open>json.loads\<close> and the reads of the two fields are
  library code, a parameter \<open>json_loads\<close> of the model: it yields the entries or the
  exception raised.
\<close>

record entry =
  line :: int
  address :: int

definition decode_dwarf ::
  "(export_name \<Rightarrow> 'g export) \<Rightarrow> (pystr \<Rightarrow> error + entry list) \<Rightarrow> byte list \<Rightarrow>
   ((int \<times> int list) list, 'g) prog" where
  "decode_dwarf exports json_loads dwo =
     bind (get_wasm_wat_mapping exports dwo) (\<lambda>mapping.
     case json_loads mapping of
       Inl e \<Rightarrow> raise e
     | Inr debug_line \<Rightarrow>
         return (foldl (\<lambda>result entry. append_item (line entry) (address entry) result) [] debug_line))"

definition parse_dwarf_in_wasm ::
  "(export_name \<Rightarrow> 'g export) \<Rightarrow> (pystr \<Rightarrow> error + entry list) \<Rightarrow> byte list \<Rightarrow>
   ((int \<times> int list) list, 'g) prog" where
  "parse_dwarf_in_wasm exports json_loads wasm =
     (case get_code_section wasm of
        Inl e \<Rightarrow> raise e
      | Inr code_section_offset \<Rightarrow>
          bind (get_wasm_wat_mapping exports wasm) (\<lambda>mapping.
          case json_loads mapping of
            Inl e \<Rightarrow> raise e
          | Inr items \<Rightarrow>
              return (foldl (\<lambda>results item.
                        append_item (line item) (address item + int code_section_offset) results)
                      [] items)))"

text \<open>
  \<open>decode_dis\<close>; \<open>int16\<close> stands for Python's \<open>int(_, 16)\<close>, \<open>None\<close> for its
  \<open>ValueError\<close>.
\<close>

definition decode_dis :: "(pystr \<Rightarrow> int option) \<Rightarrow> pystr \<Rightarrow> (int \<rightharpoonup> int)" where
  "decode_dis int16 assembly =
     foldl (\<lambda>m (i, l).
              case int16 (takeWhile (\<lambda>c. c \<noteq> 32) l) of
                None \<Rightarrow> m
              | Some machine_code_offset \<Rightarrow> m(machine_code_offset \<mapsto> int i))
       Map.empty (enumerate 0 (split_newline assembly))"

text \<open>
  The message of the one \<open>logging.info\<close> call, by its two variable parts: the wasm
  offset and the opcode name.  The \<open>logging.debug\<close> calls only format values.
\<close>

datatype log_record = Info_not_found int pystr

text \<open>
  The three nested \<open>for\<close> loops that compose the maps, innermost first.  The result so
  far is \<open>wat_line_to_assembly_line\<close>; the log is threaded beside it.
\<close>

fun machine_code_offsets_loop ::
  "(int \<rightharpoonup> int) \<Rightarrow> int \<Rightarrow> int list \<Rightarrow> (int \<times> int list) list \<Rightarrow> error + (int \<times> int list) list" where
  "machine_code_offsets_loop machine_code_offset_to_disassembly_line wat_line [] result = Inr result"
| "machine_code_offsets_loop machine_code_offset_to_disassembly_line wat_line
     (machine_code_offset # rest) result =
     (case machine_code_offset_to_disassembly_line machine_code_offset of
        None \<Rightarrow> Inl (KeyError machine_code_offset)
      | Some assembly_line \<Rightarrow>
          machine_code_offsets_loop machine_code_offset_to_disassembly_line wat_line rest
            (append_item wat_line assembly_line result))"

fun wasm_offsets_loop ::
  "byte list \<Rightarrow> (int \<rightharpoonup> int list) \<Rightarrow> (int \<rightharpoonup> int) \<Rightarrow> int \<Rightarrow> int list \<Rightarrow>
   (int \<times> int list) list \<times> log_record list \<Rightarrow>
   (error + (int \<times> int list) list) \<times> log_record list" where
  "wasm_offsets_loop wasm m1 m3 wat_line [] (result, log) = (Inr result, log)"
| "wasm_offsets_loop wasm m1 m3 wat_line (wasm_offset # rest) (result, log) =
     (case m1 wasm_offset of
        None \<Rightarrow>
          (case get_wasm_op_code_str wasm wasm_offset of
             Inl e \<Rightarrow> (Inl e, log)
           | Inr wasm_opcode_str \<Rightarrow>
               wasm_offsets_loop wasm m1 m3 wat_line rest
                 (result, log @ [Info_not_found wasm_offset wasm_opcode_str]))
      | Some machine_code_offsets \<Rightarrow>
          (case machine_code_offsets_loop m3 wat_line machine_code_offsets result of
             Inl e \<Rightarrow> (Inl e, log)
           | Inr result' \<Rightarrow> wasm_offsets_loop wasm m1 m3 wat_line rest (result', log)))"

fun wat_lines_loop ::
  "byte list \<Rightarrow> (int \<rightharpoonup> int list) \<Rightarrow> (int \<rightharpoonup> int) \<Rightarrow> (int \<times> int list) list \<Rightarrow>
   (int \<times> int list) list \<times> log_record list \<Rightarrow>
   (error + (int \<times> int list) list) \<times> log_record list" where
  "wat_lines_loop wasm m1 m3 [] (result, log) = (Inr result, log)"
| "wat_lines_loop wasm m1 m3 ((wat_line, wasm_offsets) # rest) (result, log) =
     (case wasm_offsets_loop wasm m1 m3 wat_line wasm_offsets (result, log) of
        (Inl e, log') \<Rightarrow> (Inl e, log')
      | (Inr result', log') \<Rightarrow> wat_lines_loop wasm m1 m3 rest (result', log'))"

text \<open>
  Lines 86 to 108 of dwarf.py: the composition of \<open>wat_line_to_wasm_offset\<close> (iterated in
  insertion order), \<open>wasm_offset_to_machine_code_offset\<close> and
  \<open>machine_code_offset_to_disassembly_line\<close> (both only looked up).
\<close>

definition wat_line_to_assembly_line ::
  "byte list \<Rightarrow> (int \<times> int list) list \<Rightarrow> (int \<rightharpoonup> int list) \<Rightarrow> (int \<rightharpoonup> int) \<Rightarrow>
   (error + (int \<times> int list) list) \<times> log_record list" where
  "wat_line_to_assembly_line wasm wat_line_to_wasm_offset wasm_offset_to_machine_code_offset
     machine_code_offset_to_disassembly_line =
     wat_lines_loop wasm wasm_offset_to_machine_code_offset machine_code_offset_to_disassembly_line
       wat_line_to_wasm_offset ([], [])"

definition analyze_debug_info_in_dwarf ::
  "(export_name \<Rightarrow> 'g export) \<Rightarrow> (pystr \<Rightarrow> error + entry list) \<Rightarrow> (pystr \<Rightarrow> int option) \<Rightarrow>
   byte list \<Rightarrow> byte list \<Rightarrow> pystr \<Rightarrow>
   'g world \<Rightarrow> ((error + (int \<times> int list) list) \<times> log_record list) \<times> 'g world" where
  "analyze_debug_info_in_dwarf exports json_loads int16 dwo wasm assembly w =
     (case decode_dwarf exports json_loads dwo w of
        (Inl e, w1) \<Rightarrow> ((Inl e, []), w1)
      | (Inr wasm_offset_to_machine_code_offset, w1) \<Rightarrow>
          (case parse_dwarf_in_wasm exports json_loads wasm w1 of
             (Inl e, w2) \<Rightarrow> ((Inl e, []), w2)
           | (Inr wat_line_to_wasm_offset, w2) \<Rightarrow>
               (wat_line_to_assembly_line wasm wat_line_to_wasm_offset
                  (map_of wasm_offset_to_machine_code_offset) (decode_dis int16 assembly),
                w2)))"

section \<open>A stand-in decoder for concrete runs\<close>

text \<open>
  \<open>cabi_realloc\<close> answers \<open>ptr\<close>, \<open>dwo-create\<close> answers the handle 1, and
  \<open>dwo-get-line-map\<close> puts the struct \<open>{dataPointer = 8, length = len(payload)}\<close> at
  address 0 and \<open>payload\<close> at address 8, and answers 0.  Nothing traps.
\<close>

definition stub_exports :: "int \<Rightarrow> byte list \<Rightarrow> export_name \<Rightarrow> unit export" where
  "stub_exports ptr payload func_name args mem g =
     (case func_name of
        cabi_realloc \<Rightarrow> (Some ptr, mem, g)
      | dwo_create \<Rightarrow> (Some 1, mem, g)
      | dwo_get_line_map \<Rightarrow>
          (Some 0,
           [8, 0, 0, 0, of_nat (length payload), 0, 0, 0] @ payload @ drop (8 + length payload) mem,
           g)
      | dwo_destroy \<Rightarrow> (Some 0, mem, g)
      | cabi_post_dwo_get_line_map \<Rightarrow> (Some 0, mem, g))"

definition stub_world :: "unit world" where
  "stub_world =
     \<lparr>memory = [0, 0, 0, 0, 0, 0, 0, 0, 0, 0, 0, 0, 0, 0, 0, 0, 0, 0, 0, 0], guest = (), calls = []\<rparr>"

section \<open>Properties of leb128.py\<close>

lemma u_decode_loop_all_continued:
  "\<forall>b\<in>set bs. b AND 0x80 \<noteq> 0 \<Longrightarrow>
   u_decode_loop k bs (r, i) =
     (r + (\<Sum>j<length bs. unat (bs ! j AND 0x7F) * 2 ^ (7 * (k + j))),
      if bs = [] then i else Some (k + length bs - 1))"
proof (induction bs arbitrary: k r i)
  case Nil
  then show ?case by simp
next
  case (Cons e es)
  have cont: "e AND 0x80 \<noteq> 0" and rest: "\<forall>b\<in>set es. b AND 0x80 \<noteq> 0"
    using Cons.prems by simp_all
  have shift: "(\<Sum>j<length (e # es). unat ((e # es) ! j AND 0x7F) * 2 ^ (7 * (k + j))) =
      unat (e AND 0x7F) * 2 ^ (7 * k) +
      (\<Sum>j<length es. unat (es ! j AND 0x7F) * 2 ^ (7 * (Suc k + j)))"
    by (simp only: list.size sum.lessThan_Suc_shift add_Suc_right add_0_right
        Suc_eq_plus1 [symmetric] nth_Cons_0 nth_Cons_Suc add_Suc)
  show ?case
    using cont Cons.IH [OF rest, of "Suc k"] shift
    by (simp add: Let_def push_bit_eq_mult mult.commute)
qed

lemma u_decode_loop_index: "bs \<noteq> [] \<Longrightarrow> snd (u_decode_loop k bs (r, i)) \<noteq> None"
proof (induction bs arbitrary: k r i)
  case Nil
  then show ?case by simp
next
  case (Cons e es)
  show ?case
  proof (cases es)
    case Nil
    then show ?thesis by (simp add: Let_def)
  next
    case (Cons e' es')
    then have "es \<noteq> []" by simp
    from Cons.IH [OF this] show ?thesis by (simp add: Let_def)
  qed
qed

text \<open>
  C10: on a non-empty byte sequence whose bytes all carry the continuation bit \<open>0x80\<close>,
  \<open>u.decode\<close> returns the sum of all 7-bit groups, each shifted to its position, together
  with the length of the sequence; and the only input on which \<open>u.decode\<close> fails is the
  empty one.
\<close>

theorem u_decode_unterminated:
  "(bs \<noteq> [] \<and> (\<forall>b\<in>set bs. b AND 0x80 \<noteq> 0) \<longrightarrow>
      u_decode bs = Inr (\<Sum>j<length bs. unat (bs ! j AND 0x7F) * 2 ^ (7 * j), length bs))
   \<and> ((\<exists>e. u_decode bs = Inl e) \<longleftrightarrow> bs = [])"
proof (intro conjI impI)
  assume h: "bs \<noteq> [] \<and> (\<forall>b\<in>set bs. b AND 0x80 \<noteq> 0)"
  then have "u_decode_loop 0 bs (0, None) =
      (\<Sum>j<length bs. unat (bs ! j AND 0x7F) * 2 ^ (7 * j), Some (length bs - 1))"
    using u_decode_loop_all_continued [of bs 0 0 None] by simp
  moreover have "0 < length bs" using h by simp
  ultimately show "u_decode bs =
      Inr (\<Sum>j<length bs. unat (bs ! j AND 0x7F) * 2 ^ (7 * j), length bs)"
    by (simp add: u_decode_def)
next
  show "(\<exists>e. u_decode bs = Inl e) \<longleftrightarrow> bs = []"
  proof (cases "bs = []")
    case True
    then show ?thesis by (simp add: u_decode_def)
  next
    case False
    from u_decode_loop_index [OF this, of 0 0 None]
    obtain r i where "u_decode_loop 0 bs (0, None) = (r, Some i)"
      by (cases "u_decode_loop 0 bs (0, None)") auto
    then show ?thesis using False by (simp add: u_decode_def)
  qed
qed

theorem u_decode_unterminated_witness:
  "u_decode [0x80, 0xFF] = Inr (16256, 2) \<and> u_decode [] = Inl AssertionError"
proof -
  have two: "(\<Sum>j<length [0x80, 0xFF :: byte]. f j) = f 0 + f (Suc 0)" for f :: "nat \<Rightarrow> nat"
    by (simp add: lessThan_Suc)
  have "u_decode [0x80, 0xFF] =
      Inr (\<Sum>j<length [0x80, 0xFF :: byte]. unat ([0x80, 0xFF :: byte] ! j AND 0x7F) * 2 ^ (7 * j),
           length [0x80, 0xFF :: byte])"
    using u_decode_unterminated [of "[0x80, 0xFF]"] by simp
  moreover have "(\<Sum>j<length [0x80, 0xFF :: byte].
      unat ([0x80, 0xFF :: byte] ! j AND 0x7F) * 2 ^ (7 * j)) = 16256"
    unfolding two by simp
  moreover have "u_decode [] = Inl AssertionError"
    using u_decode_unterminated [of "[]"] by (simp add: u_decode_def)
  ultimately show ?thesis by simp
qed

section \<open>Properties of wasm_parser.py\<close>

lemma byte_7F_mask: "(0x7F::byte) = mask 7"
  by (simp add: mask_eq_exp_minus_1)
lemma byte_80_exp: "(0x80::byte) = 2 ^ 7"
  by simp

lemma low7_unat: "unat ((b::byte) AND 0x7F) = unat b mod 128"
  unfolding byte_7F_mask by (simp add: take_bit_eq_mask [symmetric] unsigned_take_bit_eq take_bit_eq_mod unat_mod)

lemma nobit7: "(b::byte) AND 0x80 = 0 \<Longrightarrow> \<not> bit b 7"
  unfolding byte_80_exp by (rule iffD1 [OF and_exp_eq_0_iff_not_bit])

lemma low7: assumes "(b::byte) AND 0x80 = 0" shows "b AND 0x7F = b"
proof -
  have nb: "\<not> bit b 7" using assms by (rule nobit7)
  have "take_bit 7 b = b"
  proof (rule bit_word_eqI)
    fix n assume "n < LENGTH(8)"
    then have "n < 7 \<or> n = 7" by auto
    then show "bit (take_bit 7 b) n = bit b n" using nb by (auto simp: bit_take_bit_iff)
  qed
  then show ?thesis unfolding byte_7F_mask by (simp add: take_bit_eq_mask)
qed


lemma u_decode_loop_varuint:
  "is_varuint bs n \<Longrightarrow>
   u_decode_loop k (bs @ rest) (r, i) = (r + n * 2 ^ (7 * k), Some (k + length bs - 1))"
proof (induction bs arbitrary: n k r i)
  case Nil
  then show ?case by simp
next
  case (Cons b bs)
  show ?case
  proof (cases "b AND 0x80 = 0")
    case True
    with Cons.prems have "bs = []" "unat b = n" by simp_all
    with True show ?thesis by (simp add: low7 push_bit_eq_mult mult.commute)
  next
    case False
    with Cons.prems have lo: "unat (b AND 0x7F) = n mod 128" and hi: "is_varuint bs (n div 128)"
      by simp_all
    have ne: "bs \<noteq> []" using hi by (cases bs) simp_all
    have "n mod 128 * 2 ^ (7 * k) + n div 128 * 2 ^ (7 * Suc k) = n * 2 ^ (7 * k)"
    proof -
      have p: "(2::nat) ^ (7 * Suc k) = 128 * 2 ^ (7 * k)"
        by (simp add: power_add)
      have "n * 2 ^ (7 * k) = (n mod 128 + n div 128 * 128) * 2 ^ (7 * k)"
        by simp
      also have "\<dots> = n mod 128 * 2 ^ (7 * k) + n div 128 * (128 * 2 ^ (7 * k))"
        by (simp only: add_mult_distrib mult.assoc)
      finally show ?thesis by (simp only: p)
    qed
    then show ?thesis
      using False lo ne Cons.IH [OF hi, of "Suc k"]
      by (simp add: Let_def push_bit_eq_mult mult.commute add.assoc)
  qed
qed

lemma u_decode_varuint:
  assumes "is_varuint bs n" and "length bs \<le> MAX_LENGTH"
  shows "u_decode (take MAX_LENGTH (bs @ rest)) = Inr (n, length bs)"
proof -
  have ne: "bs \<noteq> []" using assms(1) by (cases bs) simp_all
  have "take MAX_LENGTH (bs @ rest) = bs @ take (MAX_LENGTH - length bs) rest"
    using assms(2) by simp
  then show ?thesis
    using u_decode_loop_varuint [OF assms(1), of 0 "take (MAX_LENGTH - length bs) rest" 0 None] ne
    by (simp add: u_decode_def)
qed


lemma get_code_section_while_other:
  assumes "pos < length wasm"
    and "u_decode (take MAX_LENGTH (drop (pos + 1) wasm)) = Inr (len, l)"
    and "wasm ! pos \<noteq> CODE_SECTION_ID"
  shows "get_code_section_while wasm pos = get_code_section_while wasm (pos + 1 + l + len)"
  using assms by (subst get_code_section_while.simps) (simp add: Let_def)

lemma get_code_section_while_found:
  assumes "pos < length wasm"
    and "u_decode (take MAX_LENGTH (drop (pos + 1) wasm)) = Inr (len, l)"
    and "wasm ! pos = CODE_SECTION_ID"
    and "u_decode (take MAX_LENGTH (drop (pos + 1 + l) wasm)) = Inr (function_count, l')"
  shows "get_code_section_while wasm pos = Inr (pos + 1 + l + l', function_count)"
  using assms by (subst get_code_section_while.simps) (simp add: Let_def)

lemma get_code_section_while_skip:
  assumes "valid_section s" and "sec_id s \<noteq> CODE_SECTION_ID"
  shows "get_code_section_while (pre @ section_bytes s @ tail) (length pre) =
         get_code_section_while (pre @ section_bytes s @ tail) (length pre + length (section_bytes s))"
proof -
  let ?wasm = "pre @ section_bytes s @ tail"
  have v: "is_varuint (sec_size s) (length (sec_payload s))" and l: "length (sec_size s) \<le> MAX_LENGTH"
    using assms(1) by (simp_all add: valid_section_def MAX_LENGTH_def)
  have inb: "length pre < length ?wasm" by (simp add: section_bytes_def)
  have id: "?wasm ! length pre \<noteq> CODE_SECTION_ID" using assms(2) by (simp add: section_bytes_def)
  have dr: "drop (length pre + 1) ?wasm = sec_size s @ (sec_payload s @ tail)"
    by (simp add: section_bytes_def)
  have dec: "u_decode (take MAX_LENGTH (drop (length pre + 1) ?wasm)) =
      Inr (length (sec_payload s), length (sec_size s))"
    unfolding dr by (rule u_decode_varuint [OF v l])
  have "length pre + 1 + length (sec_size s) + length (sec_payload s) =
      length pre + length (section_bytes s)"
    by (simp add: section_bytes_def)
  then show ?thesis
    using get_code_section_while_other [OF inb dec id] by (simp only:)
qed

lemma get_code_section_while_skip_all:
  assumes "\<forall>s\<in>set secs. valid_section s \<and> sec_id s \<noteq> CODE_SECTION_ID"
  shows "get_code_section_while (pre @ concat (map section_bytes secs) @ tail) (length pre) =
         get_code_section_while (pre @ concat (map section_bytes secs) @ tail)
           (length pre + length (concat (map section_bytes secs)))"
  using assms
proof (induction secs arbitrary: pre)
  case Nil
  then show ?case by simp
next
  case (Cons s secs)
  have s: "valid_section s" "sec_id s \<noteq> CODE_SECTION_ID"
    and rest: "\<forall>s\<in>set secs. valid_section s \<and> sec_id s \<noteq> CODE_SECTION_ID"
    using Cons.prems by simp_all
  let ?tail = "concat (map section_bytes secs) @ tail"
  have "get_code_section_while (pre @ section_bytes s @ ?tail) (length pre) =
        get_code_section_while (pre @ section_bytes s @ ?tail) (length (pre @ section_bytes s))"
    using get_code_section_while_skip [OF s, of pre ?tail] by simp
  also have "\<dots> = get_code_section_while ((pre @ section_bytes s) @ ?tail)
        (length (pre @ section_bytes s) + length (concat (map section_bytes secs)))"
    using Cons.IH [OF rest, of "pre @ section_bytes s"] by simp
  finally show ?case by (simp add: add.assoc)
qed

lemma get_code_section_while_code:
  assumes "is_varuint size_enc sz" and "length size_enc \<le> MAX_LENGTH"
    and "is_varuint count_enc function_count" and "length count_enc \<le> MAX_LENGTH"
  shows "get_code_section_while (pre @ CODE_SECTION_ID # size_enc @ count_enc @ tail) (length pre) =
         Inr (length pre + 1 + length size_enc + length count_enc, function_count)"
proof -
  let ?wasm = "pre @ CODE_SECTION_ID # size_enc @ count_enc @ tail"
  have inb: "length pre < length ?wasm" by simp
  have id: "?wasm ! length pre = CODE_SECTION_ID" by simp
  have dr1: "drop (length pre + 1) ?wasm = size_enc @ (count_enc @ tail)" by simp
  have dr2: "drop (length pre + 1 + length size_enc) ?wasm = count_enc @ tail" by simp
  have dec1: "u_decode (take MAX_LENGTH (drop (length pre + 1) ?wasm)) = Inr (sz, length size_enc)"
    unfolding dr1 by (rule u_decode_varuint [OF assms(1,2)])
  have dec2: "u_decode (take MAX_LENGTH (drop (length pre + 1 + length size_enc) ?wasm)) =
      Inr (function_count, length count_enc)"
    unfolding dr2 by (rule u_decode_varuint [OF assms(3,4)])
  show ?thesis
    by (rule get_code_section_while_found [OF inb dec1 id dec2])
qed

text \<open>
  C9: a module that is laid out as the binary format prescribes (an 8-byte preamble, then
  sections \<open>(id, size, payload)\<close> whose declared size is the length of their payload, none
  of them with the code-section id, then the code section: id, size, function count) makes
  \<open>get_code_section_impl\<close> return the count together with the offset just behind the
  count's encoding: the byte before the offset is the last byte of the function-count
  varuint, and the bytes from the offset on start with the first function's body size.
\<close>

theorem get_code_section_impl_valid_module:
  assumes "length preamble = 8"
    and "\<forall>s\<in>set before. valid_section s \<and> sec_id s \<noteq> CODE_SECTION_ID"
    and "is_varuint size_enc sz" and "length size_enc \<le> 5"
    and "is_varuint count_enc function_count" and "length count_enc \<le> 5"
    and "header = preamble @ concat (map section_bytes before) @ CODE_SECTION_ID # size_enc @ count_enc"
    and "wasm = header @ first_body_size @ rest"
  shows "get_code_section_impl wasm = Inr (length header, function_count)
       \<and> wasm ! (length header - 1) = last count_enc
       \<and> take (length first_body_size) (drop (length header) wasm) = first_body_size"
proof -
  let ?secs = "concat (map section_bytes before)"
  let ?tail = "CODE_SECTION_ID # size_enc @ count_enc @ first_body_size @ rest"
  have w: "wasm = preamble @ ?secs @ ?tail"
    using assms(7,8) by simp
  have ne: "count_enc \<noteq> []" using assms(5) by (cases count_enc) simp_all
  have "get_code_section_impl wasm = get_code_section_while wasm (length preamble)"
    using assms(1) by (simp add: get_code_section_impl_def)
  also have "\<dots> = get_code_section_while wasm (length (preamble @ ?secs))"
    unfolding w using get_code_section_while_skip_all [OF assms(2), of preamble ?tail] by simp
  also have "\<dots> = Inr (length (preamble @ ?secs) + 1 + length size_enc + length count_enc,
      function_count)"
    using get_code_section_while_code [of size_enc sz count_enc function_count "preamble @ ?secs"
        "first_body_size @ rest"] assms(3-6) w
    by (simp add: MAX_LENGTH_def)
  also have "length (preamble @ ?secs) + 1 + length size_enc + length count_enc = length header"
    using assms(7) by simp
  finally have r: "get_code_section_impl wasm = Inr (length header, function_count)" .
  have "wasm ! (length header - 1) = header ! (length header - 1)"
    using assms(7,8) ne by (simp add: nth_append)
  also have "\<dots> = last header"
    using assms(7) ne by (simp add: last_conv_nth)
  also have "\<dots> = last count_enc"
    using assms(7) ne by simp
  finally have l: "wasm ! (length header - 1) = last count_enc" .
  have d: "take (length first_body_size) (drop (length header) wasm) = first_body_size"
    using assms(8) by simp
  from r l d show ?thesis by simp
qed

theorem get_code_section_impl_valid_module_witness:
  "get_code_section_impl
     [0x00, 0x61, 0x73, 0x6D, 0x01, 0x00, 0x00, 0x00, 0x01, 0x02, 0x09, 0x09,
      0x0A, 0x04, 0x81, 0x00, 0x02, 0x00, 0x0B] = Inr (16, 1)"
  using get_code_section_impl_valid_module
    [of "[0x00, 0x61, 0x73, 0x6D, 0x01, 0x00, 0x00, 0x00]"
        "[\<lparr>sec_id = 0x01, sec_size = [0x02], sec_payload = [0x09, 0x09]\<rparr>]"
        "[0x04]" 4 "[0x81, 0x00]" 1 _ _ "[0x02]" "[0x00, 0x0B]", OF _ _ _ _ _ _ refl refl]
  by (simp add: valid_section_def CODE_SECTION_ID_def section_bytes_def)

section \<open>Properties of wat_parser.py\<close>

lemma offset_to_position_loop_Some:
  "cursor \<le> offset \<Longrightarrow> offset < cursor + lines_extent lines \<Longrightarrow>
   \<exists>k<length lines. offset_to_position_loop lines n cursor offset =
      Some (n + int k, offset - (cursor + lines_extent (take k lines)))"
proof (induction lines arbitrary: n cursor)
  case Nil
  then show ?case by (simp add: lines_extent_def)
next
  case (Cons l ls)
  show ?case
  proof (cases "offset < cursor + (int (length l) + 1)")
    case True
    with Cons.prems(1) have "offset_to_position_loop (l # ls) n cursor offset =
        Some (n + int 0, offset - (cursor + lines_extent (take 0 (l # ls))))"
      by (simp add: lines_extent_def)
    then show ?thesis by blast
  next
    case False
    then have a: "cursor + (int (length l) + 1) \<le> offset" by simp
    have b: "offset < cursor + (int (length l) + 1) + lines_extent ls"
      using Cons.prems(2) by (simp add: lines_extent_def)
    from Cons.IH [OF a b, of "n + 1"] obtain k where k: "k < length ls"
      and r: "offset_to_position_loop ls (n + 1) (cursor + (int (length l) + 1)) offset =
              Some (n + 1 + int k, offset - (cursor + (int (length l) + 1) + lines_extent (take k ls)))"
      by blast
    have "offset_to_position_loop (l # ls) n cursor offset =
        Some (n + int (Suc k), offset - (cursor + lines_extent (take (Suc k) (l # ls))))"
      using False r by (simp add: lines_extent_def add.assoc)
    moreover have "Suc k < length (l # ls)" using k by simp
    ultimately show ?thesis by blast
  qed
qed

lemma lines_extent_nonneg: "0 \<le> lines_extent lines"
  by (induction lines) (simp_all add: lines_extent_def)

lemma offset_to_position_loop_None:
  "offset < cursor \<or> cursor + lines_extent lines \<le> offset \<Longrightarrow>
   offset_to_position_loop lines n cursor offset = None"
proof (induction lines arbitrary: n cursor)
  case Nil
  then show ?case by simp
next
  case (Cons l ls)
  have t: "lines_extent (l # ls) = int (length l) + 1 + lines_extent ls"
    by (simp add: lines_extent_def)
  have out: "\<not> (cursor \<le> offset \<and> offset < cursor + (int (length l) + 1))"
    using Cons.prems lines_extent_nonneg [of ls] unfolding t by linarith
  have "offset < cursor + (int (length l) + 1) \<or> cursor + (int (length l) + 1) + lines_extent ls \<le> offset"
    using Cons.prems unfolding t by linarith
  from Cons.IH [OF this, of "n + 1"] out show ?case
    by (simp add: Let_def)
qed

lemma split_newline_nonempty: "split_newline wat \<noteq> []"
  by (cases wat) simp_all

lemma lines_extent_split_newline: "lines_extent (split_newline wat) = int (length wat) + 1"
proof (induction wat)
  case Nil
  then show ?case by (simp add: lines_extent_def)
next
  case (Cons c cs)
  obtain l ls where s: "split_newline cs = l # ls"
    using split_newline_nonempty [of cs] by (cases "split_newline cs") auto
  with Cons show ?case by (simp add: lines_extent_def)
qed


text \<open>
  C7: for a text split into lines at its newlines and an offset with
  \<open>0 \<le> offset < len(text)\<close>, rebuilding the offset from the position that
  \<open>offset_to_position\<close> returns (the lengths plus one of all earlier lines, plus the
  column) gives the offset back.
\<close>

theorem offset_to_position_round_trip:
  assumes "0 \<le> offset" and "offset < int (length wat)"
  shows "position_to_offset (split_newline wat) (offset_to_position (split_newline wat) offset) = offset"
proof -
  have "offset < 0 + lines_extent (split_newline wat)"
    using assms(2) by (simp add: lines_extent_split_newline)
  from offset_to_position_loop_Some [OF _ this, of 0] assms(1)
  obtain k where "offset_to_position_loop (split_newline wat) 0 0 offset =
      Some (int k, offset - lines_extent (take k (split_newline wat)))"
    by auto
  then show ?thesis
    by (simp add: offset_to_position_def position_to_offset_def lines_extent_def)
qed

lemma lines_extent_pos: "lines \<noteq> [] \<Longrightarrow> 0 < lines_extent lines"
  using lines_extent_nonneg [of "tl lines"] by (cases lines) (simp_all add: lines_extent_def)

lemma offset_to_position_loop_last:
  "lines \<noteq> [] \<Longrightarrow> offset = cursor + lines_extent lines - 1 \<Longrightarrow>
   offset_to_position_loop lines n cursor offset =
     Some (n + int (length lines) - 1, int (length (last lines)))"
proof (induction lines arbitrary: n cursor)
  case Nil
  then show ?case by simp
next
  case (Cons l ls)
  show ?case
  proof (cases "ls = []")
    case True
    with Cons.prems show ?thesis by (simp add: lines_extent_def)
  next
    case False
    have e: "lines_extent (l # ls) = int (length l) + 1 + lines_extent ls"
      by (simp add: lines_extent_def)
    have "offset = (cursor + (int (length l) + 1)) + lines_extent ls - 1"
      using Cons.prems(2) e by simp
    from Cons.IH [OF False this, of "n + 1"] lines_extent_pos [OF False] Cons.prems(2) e False
    show ?thesis by (simp add: Let_def)
  qed
qed

lemma offset_to_position_at_length:
  "offset_to_position (split_newline wat) (int (length wat)) =
     (int (length (split_newline wat)) - 1, int (length (last (split_newline wat))))"
  using offset_to_position_loop_last [of "split_newline wat" "int (length wat)" 0 0]
  by (simp add: offset_to_position_def split_newline_nonempty lines_extent_split_newline)

text \<open>
  C8: for a text split into lines at its newlines and an offset greater than the length
  of the text, \<open>offset_to_position\<close> returns the number of lines and column 0.  (The
  offset equal to the length is still inside the last line's range, which counts one
  terminator for every line: see \<open>offset_to_position_at_length\<close>.)
\<close>

theorem offset_to_position_beyond_end:
  assumes "int (length wat) < offset"
  shows "offset_to_position (split_newline wat) offset = (int (length (split_newline wat)), 0)"
proof -
  have "offset < 0 \<or> 0 + lines_extent (split_newline wat) \<le> offset"
    using assms by (simp add: lines_extent_split_newline)
  from offset_to_position_loop_None [OF this, of 0] show ?thesis
    by (simp add: offset_to_position_def)
qed

theorem offset_to_position_round_trip_witness:
  "position_to_offset (split_newline (str ''ab'' @ [10] @ str ''c''))
     (offset_to_position (split_newline (str ''ab'' @ [10] @ str ''c'')) 3) = 3"
  using offset_to_position_round_trip [of 3 "str ''ab'' @ [10] @ str ''c''"]
  by (simp add: str_def)

theorem offset_to_position_beyond_end_witness:
  "offset_to_position (split_newline (str ''ab'' @ [10] @ str ''c'')) 5 = (2, 0)"
  using offset_to_position_beyond_end [of "str ''ab'' @ [10] @ str ''c''" 5]
  by (simp add: str_def)

lemma getitem_in_range: "0 \<le> i \<Longrightarrow> i < int (length xs) \<Longrightarrow> getitem xs i = Inr (xs ! nat i)"
  by (simp add: getitem_def)

lemma split_sub_expr_loop_returns:
  assumes "\<forall>i\<in>set is. 0 \<le> i \<and> i < int (length wat)"
    and "0 < depth \<longrightarrow> current_start \<noteq> None"
  shows "\<exists>ranges. split_sub_expr_loop wat is subs current_start depth = Inr ranges"
  using assms
proof (induction "is" arbitrary: subs current_start depth)
  case Nil
  then show ?case by simp
next
  case (Cons i "is")
  have g: "getitem wat i = Inr (wat ! nat i)"
    using Cons.prems(1) by (simp add: getitem_in_range)
  have rest: "\<forall>i\<in>set is. 0 \<le> i \<and> i < int (length wat)"
    using Cons.prems(1) by simp
  note IH = Cons.IH [OF rest]
  consider (lparen) "wat ! nat i = of_char CHR ''(''"
    | (rparen) "wat ! nat i \<noteq> of_char CHR ''(''" "wat ! nat i = of_char CHR '')''"
    | (other) "wat ! nat i \<noteq> of_char CHR ''(''" "wat ! nat i \<noteq> of_char CHR '')''"
    by blast
  then show ?case
  proof cases
    case lparen
    have "0 < depth + 1 \<longrightarrow> (if depth + 1 = 1 then Some i else current_start) \<noteq> None"
      using Cons.prems(2) by auto
    from IH [OF this, of subs] show ?thesis
      using g lparen by (simp add: Let_def)
  next
    case rparen
    show ?thesis
    proof (cases "depth - 1 = 0")
      case True
      then obtain s where s: "current_start = Some s"
        using Cons.prems(2) by (cases current_start) auto
      have "0 < (0::int) \<longrightarrow> (None :: int option) \<noteq> None" by simp
      from IH [OF this, of "subs @ [Range s i]"] show ?thesis
        using g rparen True s by (simp add: Let_def)
    next
      case False
      have "0 < depth - 1 \<longrightarrow> current_start \<noteq> None"
        using Cons.prems(2) by auto
      from IH [OF this, of subs] show ?thesis
        using g rparen False by (simp add: Let_def)
    qed
  next
    case other
    from IH [OF Cons.prems(2), of subs] show ?thesis
      using g other by simp
  qed
qed

lemma split_sub_expr_whole_returns:
  "\<exists>ranges. split_sub_expr wat (Range 0 (int (length wat) - 1)) = Inr ranges"
  unfolding split_sub_expr_def
  by (rule split_sub_expr_loop_returns) auto

lemma extract_func_returns:
  assumes "wat \<noteq> []"
  shows "\<exists>ranges. extract_func wat = Inr ranges"
proof -
  obtain subs where "split_sub_expr wat (Range 0 (int (length wat) - 1)) = Inr subs"
    using split_sub_expr_whole_returns by blast
  then show ?thesis using assms by (simp add: extract_func_def extract_func_impl_def)
qed

text \<open>
  C6 (as amended): a text with unbalanced parentheses makes neither \<open>split_sub_expr\<close>
  over the whole text nor \<open>extract_func\<close> fail; both return a list of ranges.  No check
  of the balance exists: the only assertion of the loop, that a start was recorded when
  the depth returns to 0, always holds.
\<close>

theorem extract_func_ignores_imbalance:
  assumes "\<not> balanced wat"
  shows "(\<exists>ranges. split_sub_expr wat (Range 0 (int (length wat) - 1)) = Inr ranges)
       \<and> (\<exists>ranges. extract_func wat = Inr ranges)"
proof -
  have "wat \<noteq> []" using assms by (auto simp: balanced_def)
  then show ?thesis
    using split_sub_expr_whole_returns extract_func_returns by blast
qed

theorem extract_func_ignores_imbalance_witness:
  "\<not> balanced (str ''((func)'') \<and> (\<exists>ranges. extract_func (str ''((func)'') = Inr ranges)"
  using extract_func_ignores_imbalance [of "str ''((func)''"]
  by (simp add: balanced_def str_def)

text \<open>
  C6 as stated fails: the text \<open>((func)\<close> lacks a closing parenthesis, and
  \<open>extract_func\<close> returns the range of the inner form.
\<close>

theorem extract_func_unbalanced_counterexample:
  "\<not> balanced (str ''((func)'') \<and> extract_func (str ''((func)'') = Inr [Range 1 6]"
  by (simp add: balanced_def extract_func_def extract_func_impl_def split_sub_expr_def str_def
      getitem_def upto.simps get_sub_expr_def getslice_def slice_index_def strip_def isspace_def
      startswith_def)

section \<open>Properties of lib_dwarf.py\<close>

lemma read_loop_in_bounds:
  "\<forall>i\<in>set is. 0 \<le> ptr + int i \<and> ptr + int i < int (length mem) \<Longrightarrow>
   read_loop mem ptr is = Inr (map (\<lambda>i. mem ! nat (ptr + int i)) is)"
  by (induction "is") simp_all

lemma read_from_linear_memory_in_bounds:
  assumes "0 \<le> ptr" and "0 \<le> n" and "ptr + n \<le> int (length (memory w))"
  shows "read_from_linear_memory ptr n w = (Inr (take (nat n) (drop (nat ptr) (memory w))), w)"
proof -
  have "\<forall>i\<in>set [0..<nat n]. 0 \<le> ptr + int i \<and> ptr + int i < int (length (memory w))"
    using assms by auto
  then have "read_loop (memory w) ptr [0..<nat n] =
      Inr (map (\<lambda>i. memory w ! nat (ptr + int i)) [0..<nat n])"
    by (rule read_loop_in_bounds)
  moreover have "map (\<lambda>i. memory w ! nat (ptr + int i)) [0..<nat n] =
      take (nat n) (drop (nat ptr) (memory w))"
    using assms by (intro nth_equalityI) (auto simp: nat_add_distrib add.commute)
  ultimately show ?thesis by (simp add: read_from_linear_memory_def)
qed

lemma write_loop_in_bounds:
  "0 \<le> ptr \<Longrightarrow> nat ptr + i + length data \<le> length mem \<Longrightarrow>
   write_loop mem ptr i data =
     Inr (take (nat ptr + i) mem @ data @ drop (nat ptr + i + length data) mem)"
proof (induction data arbitrary: mem i)
  case Nil
  then show ?case by simp
next
  case (Cons d data)
  have inb: "0 \<le> ptr + int i \<and> ptr + int i < int (length mem)"
    using Cons.prems by auto
  have idx: "nat (ptr + int i) = nat ptr + i"
    using Cons.prems(1) by (simp add: nat_add_distrib)
  have "write_loop (mem[nat ptr + i := d]) ptr (Suc i) data =
      Inr (take (nat ptr + Suc i) (mem[nat ptr + i := d]) @ data @
           drop (nat ptr + Suc i + length data) (mem[nat ptr + i := d]))"
    using Cons.prems by (intro Cons.IH) simp_all
  moreover have "take (nat ptr + Suc i) (mem[nat ptr + i := d]) = take (nat ptr + i) mem @ [d]"
    using Cons.prems by (simp add: take_Suc_conv_app_nth)
  ultimately show ?case
    using inb idx by simp
qed

lemma write_to_linear_memory_in_bounds:
  assumes "0 \<le> ptr" and "nat ptr + length data \<le> length (memory w)"
  shows "write_to_linear_memory ptr data w =
     (Inr (), w\<lparr>memory := take (nat ptr) (memory w) @ data @ drop (nat ptr + length data) (memory w)\<rparr>)"
  using write_loop_in_bounds [of ptr 0 data "memory w"] assms
  by (simp add: write_to_linear_memory_def)


lemma DWO_enter_run:
  assumes "exports cabi_realloc [0, 0, 4, int (length blob)] (memory w) (guest w) = (Some p, m1, g1)"
    and "0 \<le> p" and "nat p + length blob \<le> length m1"
    and "exports dwo_create [p, int (length blob)]
           (take (nat p) m1 @ blob @ drop (nat p + length blob) m1) g1 = (Some handle, m2, g2)"
  shows "DWO_enter exports (DWO_init blob) w =
     (Inr (handle, \<lparr>self_bin = blob, self_dwo = Some handle\<rparr>),
      \<lparr>memory = m2, guest = g2,
       calls = calls w @ [(cabi_realloc, [0, 0, 4, int (length blob)]),
                          (dwo_create, [p, int (length blob)])]\<rparr>)"
proof -
  let ?w1 = "\<lparr>memory = m1, guest = g1,
      calls = calls w @ [(cabi_realloc, [0, 0, 4, int (length blob)])]\<rparr>"
  have c1: "call_func exports cabi_realloc [0, 0, 4, int (length blob)] w = (Inr p, ?w1)"
    using assms(1) by (simp add: call_func_def)
  let ?w2 = "\<lparr>memory = take (nat p) m1 @ blob @ drop (nat p + length blob) m1, guest = g1,
      calls = calls w @ [(cabi_realloc, [0, 0, 4, int (length blob)])]\<rparr>"
  have wr: "write_to_linear_memory p blob ?w1 = (Inr (), ?w2)"
    using write_to_linear_memory_in_bounds [of p blob ?w1] assms(2,3) by simp
  have c2: "call_func exports dwo_create [p, int (length blob)] ?w2 =
      (Inr handle, \<lparr>memory = m2, guest = g2,
        calls = calls w @ [(cabi_realloc, [0, 0, 4, int (length blob)]),
                           (dwo_create, [p, int (length blob)])]\<rparr>)"
    using assms(4) by (simp add: call_func_def)
  show ?thesis
    by (simp add: DWO_enter_def DWO_init_def bind_def c1 wr c2 return_def)
qed

lemma stub_enter:
  "DWO_enter (stub_exports 16 payload) (DWO_init [1, 2, 3]) stub_world =
     (Inr (1, \<lparr>self_bin = [1, 2, 3], self_dwo = Some 1\<rparr>),
      \<lparr>memory = [0, 0, 0, 0, 0, 0, 0, 0, 0, 0, 0, 0, 0, 0, 0, 0, 1, 2, 3, 0], guest = (),
       calls = [(cabi_realloc, [0, 0, 4, 3]), (dwo_create, [16, 3])]\<rparr>)"
  using DWO_enter_run [of "stub_exports 16 payload" "[1, 2, 3]" stub_world 16 "memory stub_world" "()" 1
      "[0, 0, 0, 0, 0, 0, 0, 0, 0, 0, 0, 0, 0, 0, 0, 0, 1, 2, 3, 0]" "()"]
  by (simp add: stub_exports_def stub_world_def)


lemma get_wasm_wat_mapping_body_read:
  assumes "exports dwo_get_line_map [h] (memory w) (guest w) = (Some sp, m, g)"
    and "0 \<le> sp" and "nat sp + 8 \<le> length m"
    and "from_bytes_little (take 4 (drop (nat sp) m)) = jp"
    and "from_bytes_little (take 4 (drop (nat sp + 4) m)) = jl"
    and "jp + jl \<le> length m"
  shows "get_wasm_wat_mapping_body exports h w =
     (case utf8_decode (take jl (drop jp m)) of
        Inl e \<Rightarrow> raise e
      | Inr debug_line \<Rightarrow>
          bind (call_func exports cabi_post_dwo_get_line_map [sp]) (\<lambda>_. return debug_line))
     \<lparr>memory = m, guest = g, calls = calls w @ [(dwo_get_line_map, [h])]\<rparr>"
proof -
  let ?w1 = "\<lparr>memory = m, guest = g, calls = calls w @ [(dwo_get_line_map, [h])]\<rparr>"
  have c: "call_func exports dwo_get_line_map [h] w = (Inr sp, ?w1)"
    using assms(1) by (simp add: call_func_def)
  have r1: "read_from_linear_memory sp 4 ?w1 = (Inr (take 4 (drop (nat sp) m)), ?w1)"
    using read_from_linear_memory_in_bounds [of sp 4 ?w1] assms(2,3) by simp
  have r2: "read_from_linear_memory (sp + 4) 4 ?w1 = (Inr (take 4 (drop (nat sp + 4) m)), ?w1)"
    using read_from_linear_memory_in_bounds [of "sp + 4" 4 ?w1] assms(2,3)
    by (simp add: nat_add_distrib)
  have r3: "read_from_linear_memory (int jp) (int jl) ?w1 = (Inr (take jl (drop jp m)), ?w1)"
    using read_from_linear_memory_in_bounds [of "int jp" "int jl" ?w1] assms(6) by simp
  show ?thesis
    by (simp add: get_wasm_wat_mapping_body_def bind_def c r1 r2 assms(4,5) r3 Let_def)
qed

lemma stub_body:
  assumes "length payload \<le> 8" and "20 \<le> length (memory w)"
  shows "get_wasm_wat_mapping_body (stub_exports ptr payload) h w =
     (case utf8_decode payload of
        Inl e \<Rightarrow> raise e
      | Inr debug_line \<Rightarrow>
          bind (call_func (stub_exports ptr payload) cabi_post_dwo_get_line_map [0])
            (\<lambda>_. return debug_line))
     \<lparr>memory = [8, 0, 0, 0, of_nat (length payload), 0, 0, 0] @ payload @
                 drop (8 + length payload) (memory w),
      guest = guest w, calls = calls w @ [(dwo_get_line_map, [h])]\<rparr>"
proof -
  let ?m = "[8, 0, 0, 0, of_nat (length payload), 0, 0, 0] @ payload @
      drop (8 + length payload) (memory w)"
  have u: "unat (of_nat (length payload) :: byte) = length payload"
    using assms(1) by (simp add: unat_of_nat)
  have "get_wasm_wat_mapping_body (stub_exports ptr payload) h w =
     (case utf8_decode (take (length payload) (drop 8 ?m)) of
        Inl e \<Rightarrow> raise e
      | Inr debug_line \<Rightarrow>
          bind (call_func (stub_exports ptr payload) cabi_post_dwo_get_line_map [0])
            (\<lambda>_. return debug_line))
     \<lparr>memory = ?m, guest = guest w, calls = calls w @ [(dwo_get_line_map, [h])]\<rparr>"
    using assms
    by (intro get_wasm_wat_mapping_body_read)
       (simp_all add: stub_exports_def from_bytes_little_def u)
  then show ?thesis by simp
qed

text \<open>
  C4 on a payload that is not UTF-8: the decoder hands out the one byte \<open>0xFF\<close>;
  \<open>decode\<close> raises inside the \<open>with\<close> block, \<open>dwo-destroy\<close> is called, and
  \<open>cabi_post_dwo-get-line-map\<close> is not.
\<close>

theorem post_return_skipped_on_decode_error:
  "get_wasm_wat_mapping (stub_exports 16 [0xFF]) [1, 2, 3] stub_world =
     (Inl UnicodeDecodeError,
      \<lparr>memory = [8, 0, 0, 0, 1, 0, 0, 0, 0xFF, 0, 0, 0, 0, 0, 0, 0, 1, 2, 3, 0], guest = (),
       calls = [(cabi_realloc, [0, 0, 4, 3]), (dwo_create, [16, 3]), (dwo_get_line_map, [1]),
                (dwo_destroy, [1])]\<rparr>)"
  by (simp add: get_wasm_wat_mapping_def with_DWO_def stub_enter stub_body raise_def DWO_exit_def
      call_func_def stub_exports_def)

lemma stub_get_wasm_wat_mapping_ok:
  "get_wasm_wat_mapping (stub_exports 16 [0x5B, 0x5D]) [1, 2, 3] stub_world =
     (Inr [91, 93],
      \<lparr>memory = [8, 0, 0, 0, 2, 0, 0, 0, 0x5B, 0x5D, 0, 0, 0, 0, 0, 0, 1, 2, 3, 0], guest = (),
       calls = [(cabi_realloc, [0, 0, 4, 3]), (dwo_create, [16, 3]), (dwo_get_line_map, [1]),
                (cabi_post_dwo_get_line_map, [0]), (dwo_destroy, [1])]\<rparr>)"
  by (simp add: get_wasm_wat_mapping_def with_DWO_def stub_enter stub_body raise_def return_def
      bind_def DWO_exit_def call_func_def stub_exports_def)


lemma no_destroy_return: "no_destroy (return a)"
  by (simp add: no_destroy_def return_def)

lemma no_destroy_raise: "no_destroy (raise e)"
  by (simp add: no_destroy_def raise_def)

lemma no_destroy_read: "no_destroy (read_from_linear_memory ptr n)"
  by (simp add: no_destroy_def read_from_linear_memory_def)

lemma no_destroy_write: "no_destroy (write_to_linear_memory ptr data)"
  by (auto simp: no_destroy_def write_to_linear_memory_def split: sum.splits)

lemma no_destroy_call: "f \<noteq> dwo_destroy \<Longrightarrow> no_destroy (call_func exports f args)"
  by (auto simp: no_destroy_def call_func_def split: prod.splits)

lemma no_destroy_bind:
  assumes "no_destroy m" and "\<And>a. no_destroy (f a)"
  shows "no_destroy (bind m f)"
  unfolding no_destroy_def
proof (intro allI impI)
  fix w r w'
  assume run: "bind m f w = (r, w')"
  obtain r1 w1 where m: "m w = (r1, w1)" by (cases "m w")
  then obtain cs1 where cs1: "calls w1 = calls w @ cs1" "\<forall>c\<in>set cs1. fst c \<noteq> dwo_destroy"
    using assms(1) unfolding no_destroy_def by blast
  show "\<exists>cs. calls w' = calls w @ cs \<and> (\<forall>c\<in>set cs. fst c \<noteq> dwo_destroy)"
  proof (cases r1)
    case (Inl e)
    then have "w' = w1" using run m by (simp add: bind_def)
    then show ?thesis using cs1 by blast
  next
    case (Inr a)
    then have "f a w1 = (r, w')" using run m by (simp add: bind_def)
    then obtain cs2 where "calls w' = calls w1 @ cs2" "\<forall>c\<in>set cs2. fst c \<noteq> dwo_destroy"
      using assms(2) [of a] unfolding no_destroy_def by blast
    then have "calls w' = calls w @ (cs1 @ cs2) \<and> (\<forall>c\<in>set (cs1 @ cs2). fst c \<noteq> dwo_destroy)"
      using cs1 by auto
    then show ?thesis by blast
  qed
qed

lemma no_destroy_DWO_enter: "no_destroy (DWO_enter exports self)"
  unfolding DWO_enter_def
  by (intro no_destroy_bind no_destroy_call no_destroy_write no_destroy_return) simp_all

lemma no_destroy_body: "no_destroy (get_wasm_wat_mapping_body exports h)"
  unfolding get_wasm_wat_mapping_body_def Let_def
  by (intro no_destroy_bind no_destroy_call no_destroy_read)
     (auto split: sum.splits intro!: no_destroy_raise no_destroy_bind no_destroy_call no_destroy_return)

lemma DWO_enter_handle:
  "DWO_enter exports self w = (Inr (h, self'), w1) \<Longrightarrow> self_dwo self' = Some h"
  by (auto simp: DWO_enter_def bind_def return_def split: prod.splits sum.splits)


text \<open>
  C3: when \<open>__enter__\<close> has created a handle, then on every way out of
  \<open>get_wasm_wat_mapping\<close> that Python sees (the string is returned, or an exception is
  raised inside the \<open>with\<close> block or by \<open>__exit__\<close>; a run that stops in an unchecked
  access outside the linear memory is none) the calls made by this invocation contain
  \<open>dwo-destroy\<close> exactly once, with that handle.  Parsing the JSON afterwards, as
  \<open>decode_dwarf\<close> does, leaves the decoder as it is, whatever the parser answers.
\<close>

theorem dwo_destroy_called_once:
  assumes "DWO_enter exports (DWO_init blob) w = (Inr (handle, self), w1)"
    and "get_wasm_wat_mapping exports blob w = (r, w')"
    and "r \<noteq> Inl MemoryFault"
  shows "filter (\<lambda>c. fst c = dwo_destroy) (drop (length (calls w)) (calls w')) =
           [(dwo_destroy, [handle])]
       \<and> snd (decode_dwarf exports json_loads blob w) = w'"
proof -
  obtain r2 w2 where body: "get_wasm_wat_mapping_body exports handle w1 = (r2, w2)"
    by (cases "get_wasm_wat_mapping_body exports handle w1")
  obtain cs1 where cs1: "calls w1 = calls w @ cs1" "\<forall>c\<in>set cs1. fst c \<noteq> dwo_destroy"
    using no_destroy_DWO_enter [of exports "DWO_init blob"] assms(1)
    unfolding no_destroy_def by blast
  obtain cs2 where cs2: "calls w2 = calls w1 @ cs2" "\<forall>c\<in>set cs2. fst c \<noteq> dwo_destroy"
    using no_destroy_body [of exports handle] body
    unfolding no_destroy_def by blast
  have h: "self_dwo self = Some handle"
    using assms(1) by (rule DWO_enter_handle)
  have nf: "r2 \<noteq> Inl MemoryFault"
    using assms(2,3) assms(1) body
    by (auto simp: get_wasm_wat_mapping_def with_DWO_def)
  obtain r3 w3 where ex: "DWO_exit exports self w2 = (r3, w3)"
    by (cases "DWO_exit exports self w2")
  have c3: "calls w3 = calls w2 @ [(dwo_destroy, [handle])]"
    using ex h by (auto simp: DWO_exit_def call_func_def split: prod.splits)
  have "w' = w3"
    using assms(1,2) body nf ex
    by (auto simp: get_wasm_wat_mapping_def with_DWO_def split: sum.splits)
  then have "drop (length (calls w)) (calls w') = cs1 @ cs2 @ [(dwo_destroy, [handle])]"
    using c3 cs1(1) cs2(1) by simp
  then have one: "filter (\<lambda>c. fst c = dwo_destroy) (drop (length (calls w)) (calls w')) =
      [(dwo_destroy, [handle])]"
    using cs1(2) cs2(2) by simp
  have "snd (decode_dwarf exports json_loads blob w) = w'"
    using assms(2)
    by (auto simp: decode_dwarf_def bind_def raise_def return_def split: sum.splits)
  with one show ?thesis by simp
qed

theorem dwo_destroy_called_once_witness:
  "filter (\<lambda>c. fst c = dwo_destroy)
     (drop (length (calls stub_world))
        (calls (snd (get_wasm_wat_mapping (stub_exports 16 [0x5B, 0x5D]) [1, 2, 3] stub_world)))) =
     [(dwo_destroy, [1])]
   \<and> calls (snd (decode_dwarf (stub_exports 16 [0x5B, 0x5D]) (\<lambda>_. Inl JSONDecodeError) [1, 2, 3]
        stub_world)) =
     [(cabi_realloc, [0, 0, 4, 3]), (dwo_create, [16, 3]), (dwo_get_line_map, [1]),
      (cabi_post_dwo_get_line_map, [0]), (dwo_destroy, [1])]"
  using dwo_destroy_called_once [OF stub_enter stub_get_wasm_wat_mapping_ok,
      of "\<lambda>_. Inl JSONDecodeError"]
  by (simp add: stub_get_wasm_wat_mapping_ok)

text \<open>
  C5 (as amended): when \<open>cabi_realloc\<close> answers the pointer 0, \<open>__enter__\<close> makes no
  check.  If the blob fits into the linear memory and \<open>dwo-create\<close> does not trap, it has
  copied the blob to the addresses from 0 on, has called \<open>dwo-create(0, len(blob))\<close> and
  returns the handle.
\<close>

theorem DWO_enter_null_pointer:
  assumes "exports cabi_realloc [0, 0, 4, int (length blob)] (memory w) (guest w) = (Some 0, m1, g1)"
    and "length blob \<le> length m1"
    and "exports dwo_create [0, int (length blob)] (blob @ drop (length blob) m1) g1 =
           (Some handle, m2, g2)"
  shows "DWO_enter exports (DWO_init blob) w =
     (Inr (handle, \<lparr>self_bin = blob, self_dwo = Some handle\<rparr>),
      \<lparr>memory = m2, guest = g2,
       calls = calls w @ [(cabi_realloc, [0, 0, 4, int (length blob)]),
                          (dwo_create, [0, int (length blob)])]\<rparr>)"
  using DWO_enter_run [of exports blob w 0 m1 g1 handle m2 g2] assms by simp

theorem DWO_enter_null_pointer_witness:
  "DWO_enter (stub_exports 0 []) (DWO_init [1, 2, 3]) stub_world =
     (Inr (1, \<lparr>self_bin = [1, 2, 3], self_dwo = Some 1\<rparr>),
      \<lparr>memory = [1, 2, 3, 0, 0, 0, 0, 0, 0, 0, 0, 0, 0, 0, 0, 0, 0, 0, 0, 0], guest = (),
       calls = [(cabi_realloc, [0, 0, 4, 3]), (dwo_create, [0, 3])]\<rparr>)"
  using DWO_enter_null_pointer [of "stub_exports 0 []" "[1, 2, 3]" stub_world "memory stub_world" "()"
      1 "[1, 2, 3, 0, 0, 0, 0, 0, 0, 0, 0, 0, 0, 0, 0, 0, 0, 0, 0, 0]" "()"]
  by (simp add: stub_exports_def stub_world_def)

text \<open>
  C5 as stated fails: with a decoder whose allocator answers 0, \<open>__enter__\<close> returns the
  handle 1 and the blob lies at address 0.
\<close>

theorem DWO_enter_null_pointer_counterexample:
  "stub_exports 0 [] cabi_realloc [0, 0, 4, 3] (memory stub_world) (guest stub_world) =
     (Some 0, memory stub_world, ())
   \<and> fst (DWO_enter (stub_exports 0 []) (DWO_init [1, 2, 3]) stub_world) =
     Inr (1, \<lparr>self_bin = [1, 2, 3], self_dwo = Some 1\<rparr>)
   \<and> memory (snd (DWO_enter (stub_exports 0 []) (DWO_init [1, 2, 3]) stub_world)) =
     [1, 2, 3, 0, 0, 0, 0, 0, 0, 0, 0, 0, 0, 0, 0, 0, 0, 0, 0, 0]"
  using DWO_enter_run [of "stub_exports 0 []" "[1, 2, 3]" stub_world 0 "memory stub_world" "()"
      1 "[1, 2, 3, 0, 0, 0, 0, 0, 0, 0, 0, 0, 0, 0, 0, 0, 0, 0, 0, 0]" "()"]
  by (simp add: stub_exports_def stub_world_def)

section \<open>Properties of dwarf.py\<close>

lemma wasm_offsets_loop_miss:
  assumes "m1 wasm_offset = None" and "get_wasm_op_code_str wasm wasm_offset = Inr wasm_opcode_str"
  shows "wasm_offsets_loop wasm m1 m3 wat_line (wasm_offset # rest) (result, log) =
         wasm_offsets_loop wasm m1 m3 wat_line rest
           (result, log @ [Info_not_found wasm_offset wasm_opcode_str])"
  using assms by simp

text \<open>
  C1 on the input of the claim: the wasm offset 10 maps to the machine-code offset
  \<open>0x1000\<close>, which no line of the disassembly has.  The subscript raises
  \<open>KeyError\<close>, no mapping is returned and nothing is logged.
\<close>

theorem machine_code_offset_miss_raises:
  "wat_line_to_assembly_line wasm [(3, [10])] [10 \<mapsto> [0x1000]] Map.empty =
     (Inl (KeyError 0x1000), [])"
  by (simp add: wat_line_to_assembly_line_def)

text \<open>
  C2: the line 3 with the wasm offset 10, the wasm offset 10 with the machine-code
  offset \<open>0x1000\<close>, and the machine-code offset \<open>0x1000\<close> on line 7 of the disassembly
  compose to the mapping \<open>{3: [7]}\<close>, for every module and with nothing logged.
\<close>

theorem composition_example:
  "wat_line_to_assembly_line wasm [(3, [10])] [10 \<mapsto> [0x1000]] [0x1000 \<mapsto> 7] =
     (Inr [(3, [7])], [])"
  by (simp add: wat_line_to_assembly_line_def)

end
